theory Spec2Isabelle
  imports Complex_Main
begin

section \<open>The CSTR model of \<^verbatim>\<open>src/utils/cstrModel.ts\<close>\<close>

text \<open>
  The simulator class \<^verbatim>\<open>CSTRSimulator\<close> owns a state object, a parameter object and the
  step size \<^verbatim>\<open>dt\<close>. Its methods read and assign \<^verbatim>\<open>this.state\<close> and \<^verbatim>\<open>this.params\<close>; here
  every method takes the simulator as an argument, and a method that assigns returns the
  simulator it leaves behind.

  A TypeScript \<^verbatim>\<open>number\<close> is modelled as a \<^typ>\<open>real\<close>: the arithmetic is exact. Rounding to
  the nearest double, the infinities and NaN are not part of this model, so a division by
  zero has HOL's value \<open>0\<close> where the program has an infinity or NaN.
\<close>

subsection \<open>Data\<close>

record CSTRState =
  volume :: real
  concentration :: real
  temperature :: real
  jacketTemp :: real
  time :: real

record CSTRParameters =
  inletFlowRate :: real
  feedConcentration :: real
  feedTemperature :: real
  jacketInletTemp :: real
  valveConstant :: real
  minimumVolume :: real
  preExponentialFactor :: real
  activationEnergy :: real
  gasConstant :: real
  reactionOrder :: real
  density :: real
  heatCapacity :: real
  heatOfReaction :: real
  heatTransferCoeff :: real
  heatTransferArea :: real
  jacketDensity :: real
  jacketHeatCapacity :: real
  jacketVolume :: real
  jacketFlowRate :: real

text \<open>
  \<^verbatim>\<open>Partial<CSTRParameters>\<close>: every property may be absent (\<open>None\<close>) or carry a number.
  A property that is present with the value \<^verbatim>\<open>undefined\<close> is not a number and has no
  counterpart here.
\<close>

record PartialCSTRParameters =
  opt_inletFlowRate :: "real option"
  opt_feedConcentration :: "real option"
  opt_feedTemperature :: "real option"
  opt_jacketInletTemp :: "real option"
  opt_valveConstant :: "real option"
  opt_minimumVolume :: "real option"
  opt_preExponentialFactor :: "real option"
  opt_activationEnergy :: "real option"
  opt_gasConstant :: "real option"
  opt_reactionOrder :: "real option"
  opt_density :: "real option"
  opt_heatCapacity :: "real option"
  opt_heatOfReaction :: "real option"
  opt_heatTransferCoeff :: "real option"
  opt_heatTransferArea :: "real option"
  opt_jacketDensity :: "real option"
  opt_jacketHeatCapacity :: "real option"
  opt_jacketVolume :: "real option"
  opt_jacketFlowRate :: "real option"

record CSTRSimulator =
  state :: CSTRState
  params :: CSTRParameters
  dt :: real

text \<open>
  The constructor copies both arguments and the field initialiser sets \<^verbatim>\<open>dt = 0.1\<close>.
\<close>

definition new_CSTRSimulator :: "CSTRState \<Rightarrow> CSTRParameters \<Rightarrow> CSTRSimulator" where
  "new_CSTRSimulator initialState parameters =
     \<lparr>state = initialState, params = parameters, dt = 0.1\<rparr>"

subsection \<open>Library functions\<close>

text \<open>
  \<^verbatim>\<open>Math.pow\<close> on reals. It is \<open>1\<close> for the exponent \<open>0\<close> whatever the base, a negative base
  with an integer exponent keeps the sign of the parity, and a non-negative base is the
  real power. The remaining arguments (a negative base with a fractional exponent, the
  base \<open>0\<close> with a negative exponent) are those where the program has NaN or an infinity.
\<close>

definition Math_pow :: "real \<Rightarrow> real \<Rightarrow> real" where
  "Math_pow x y =
     (if y = 0 then 1
      else if x < 0 \<and> of_int \<lfloor>y\<rfloor> = y then
        (if even \<lfloor>y\<rfloor> then (- x) powr y else - ((- x) powr y))
      else x powr y)"

text \<open>
  The arguments at which \<^verbatim>\<open>Math.pow\<close> is a number of this model: everywhere but at a
  negative base with a fractional exponent (NaN) and at the base \<open>0\<close> with a negative
  exponent (an infinity).
\<close>

definition Math_pow_finite :: "real \<Rightarrow> real \<Rightarrow> bool" where
  "Math_pow_finite x y =
     (y = 0 \<or> 0 < x \<or> (x = 0 \<and> 0 < y) \<or> (x < 0 \<and> of_int \<lfloor>y\<rfloor> = y))"

definition Math_exp :: "real \<Rightarrow> real" where
  "Math_exp x = exp x"

subsection \<open>Rates and derivatives\<close>

definition getOutletFlowRate :: "CSTRSimulator \<Rightarrow> real" where
  "getOutletFlowRate this =
     valveConstant (params this) * (volume (state this) - minimumVolume (params this))"

definition calculateRateConstant :: "CSTRSimulator \<Rightarrow> real" where
  "calculateRateConstant this =
     preExponentialFactor (params this) *
     Math_exp (- activationEnergy (params this) /
               (gasConstant (params this) * temperature (state this)))"

definition getReactionRateValue :: "CSTRSimulator \<Rightarrow> real" where
  "getReactionRateValue this =
     (let k = calculateRateConstant this
      in k * Math_pow (concentration (state this)) (reactionOrder (params this)))"

definition volumeDerivative :: "CSTRSimulator \<Rightarrow> real" where
  "volumeDerivative this =
     (let outletFlow = getOutletFlowRate this
      in inletFlowRate (params this) - outletFlow)"

definition concentrationDerivative :: "CSTRSimulator \<Rightarrow> real" where
  "concentrationDerivative this =
     (let outletFlow = getOutletFlowRate this;
          reactionRate = getReactionRateValue this
      in (inletFlowRate (params this) * feedConcentration (params this) -
          outletFlow * concentration (state this) -
          volume (state this) * reactionRate) / volume (state this))"

definition temperatureDerivative :: "CSTRSimulator \<Rightarrow> real" where
  "temperatureDerivative this =
     (let outletFlow = getOutletFlowRate this;
          reactionRate = getReactionRateValue this;
          volumetricHeatCapacity = density (params this) * heatCapacity (params this);
          convectiveTerm = volumetricHeatCapacity *
            (inletFlowRate (params this) * feedTemperature (params this) -
             outletFlow * temperature (state this));
          reactionTerm = heatOfReaction (params this) * volume (state this) * reactionRate;
          heatTransferTerm =
            heatTransferCoeff (params this) * heatTransferArea (params this) *
            (temperature (state this) - jacketTemp (state this))
      in (convectiveTerm - reactionTerm - heatTransferTerm) /
         (volumetricHeatCapacity * volume (state this)))"

definition jacketTempDerivative :: "CSTRSimulator \<Rightarrow> real" where
  "jacketTempDerivative this =
     (let jacketHeatCapacity' = jacketDensity (params this) * jacketHeatCapacity (params this);
          convectiveTerm = jacketFlowRate (params this) * jacketHeatCapacity' *
            (jacketInletTemp (params this) - jacketTemp (state this));
          heatTransferTerm =
            heatTransferCoeff (params this) * heatTransferArea (params this) *
            (temperature (state this) - jacketTemp (state this))
      in (convectiveTerm + heatTransferTerm) /
         (jacketHeatCapacity' * jacketVolume (params this)))"

subsection \<open>The integrator\<close>

text \<open>
  The assignments \<^verbatim>\<open>this.state.volume += d\<close> and its three siblings, and
  \<^verbatim>\<open>this.state.time += d\<close>.
\<close>

definition add_volume :: "real \<Rightarrow> CSTRSimulator \<Rightarrow> CSTRSimulator" where
  "add_volume d this = this\<lparr>state := (state this)\<lparr>volume := volume (state this) + d\<rparr>\<rparr>"

definition add_concentration :: "real \<Rightarrow> CSTRSimulator \<Rightarrow> CSTRSimulator" where
  "add_concentration d this =
     this\<lparr>state := (state this)\<lparr>concentration := concentration (state this) + d\<rparr>\<rparr>"

definition add_temperature :: "real \<Rightarrow> CSTRSimulator \<Rightarrow> CSTRSimulator" where
  "add_temperature d this =
     this\<lparr>state := (state this)\<lparr>temperature := temperature (state this) + d\<rparr>\<rparr>"

definition add_jacketTemp :: "real \<Rightarrow> CSTRSimulator \<Rightarrow> CSTRSimulator" where
  "add_jacketTemp d this =
     this\<lparr>state := (state this)\<lparr>jacketTemp := jacketTemp (state this) + d\<rparr>\<rparr>"

definition add_time :: "real \<Rightarrow> CSTRSimulator \<Rightarrow> CSTRSimulator" where
  "add_time d this = this\<lparr>state := (state this)\<lparr>time := time (state this) + d\<rparr>\<rparr>"

text \<open>
  \<^verbatim>\<open>step()\<close> returns a copy of the new state and leaves the simulator holding it. The
  name \<open>this\<close> is rebound at every assignment, in the order of the source.
\<close>

definition step :: "CSTRSimulator \<Rightarrow> CSTRState \<times> CSTRSimulator" where
  "step this0 =
     (let k1_v = dt this0 * volumeDerivative this0;
          k1_c = dt this0 * concentrationDerivative this0;
          k1_t = dt this0 * temperatureDerivative this0;
          k1_tj = dt this0 * jacketTempDerivative this0;
          originalState = state this0;
          this = add_volume (k1_v / 2) this0;
          this = add_concentration (k1_c / 2) this;
          this = add_temperature (k1_t / 2) this;
          this = add_jacketTemp (k1_tj / 2) this;
          k2_v = dt this * volumeDerivative this;
          k2_c = dt this * concentrationDerivative this;
          k2_t = dt this * temperatureDerivative this;
          k2_tj = dt this * jacketTempDerivative this;
          this = this\<lparr>state := originalState\<rparr>;
          this = add_volume (k2_v / 2) this;
          this = add_concentration (k2_c / 2) this;
          this = add_temperature (k2_t / 2) this;
          this = add_jacketTemp (k2_tj / 2) this;
          k3_v = dt this * volumeDerivative this;
          k3_c = dt this * concentrationDerivative this;
          k3_t = dt this * temperatureDerivative this;
          k3_tj = dt this * jacketTempDerivative this;
          this = this\<lparr>state := originalState\<rparr>;
          this = add_volume k3_v this;
          this = add_concentration k3_c this;
          this = add_temperature k3_t this;
          this = add_jacketTemp k3_tj this;
          k4_v = dt this * volumeDerivative this;
          k4_c = dt this * concentrationDerivative this;
          k4_t = dt this * temperatureDerivative this;
          k4_tj = dt this * jacketTempDerivative this;
          this = this\<lparr>state := originalState\<rparr>;
          this = add_volume ((k1_v + 2 * k2_v + 2 * k3_v + k4_v) / 6) this;
          this = add_concentration ((k1_c + 2 * k2_c + 2 * k3_c + k4_c) / 6) this;
          this = add_temperature ((k1_t + 2 * k2_t + 2 * k3_t + k4_t) / 6) this;
          this = add_jacketTemp ((k1_tj + 2 * k2_tj + 2 * k3_tj + k4_tj) / 6) this;
          this = add_time (dt this) this
      in (state this, this))"

text \<open>\<open>n\<close> calls of \<^verbatim>\<open>step()\<close> in a row, the returned states dropped.\<close>

fun steps :: "nat \<Rightarrow> CSTRSimulator \<Rightarrow> CSTRSimulator" where
  "steps 0 this = this"
| "steps (Suc n) this = steps n (snd (step this))"

subsection \<open>Parameter updates and diagnostics\<close>

text \<open>
  The object spread \<^verbatim>\<open>{ ...this.params, ...newParams }\<close>: a property of \<^verbatim>\<open>newParams\<close> wins
  where it is present.
\<close>

definition spread :: "CSTRParameters \<Rightarrow> PartialCSTRParameters \<Rightarrow> CSTRParameters" where
  "spread p q =
     \<lparr>inletFlowRate = (case opt_inletFlowRate q of None \<Rightarrow> inletFlowRate p | Some v \<Rightarrow> v),
      feedConcentration =
        (case opt_feedConcentration q of None \<Rightarrow> feedConcentration p | Some v \<Rightarrow> v),
      feedTemperature =
        (case opt_feedTemperature q of None \<Rightarrow> feedTemperature p | Some v \<Rightarrow> v),
      jacketInletTemp =
        (case opt_jacketInletTemp q of None \<Rightarrow> jacketInletTemp p | Some v \<Rightarrow> v),
      valveConstant = (case opt_valveConstant q of None \<Rightarrow> valveConstant p | Some v \<Rightarrow> v),
      minimumVolume = (case opt_minimumVolume q of None \<Rightarrow> minimumVolume p | Some v \<Rightarrow> v),
      preExponentialFactor =
        (case opt_preExponentialFactor q of None \<Rightarrow> preExponentialFactor p | Some v \<Rightarrow> v),
      activationEnergy =
        (case opt_activationEnergy q of None \<Rightarrow> activationEnergy p | Some v \<Rightarrow> v),
      gasConstant = (case opt_gasConstant q of None \<Rightarrow> gasConstant p | Some v \<Rightarrow> v),
      reactionOrder = (case opt_reactionOrder q of None \<Rightarrow> reactionOrder p | Some v \<Rightarrow> v),
      density = (case opt_density q of None \<Rightarrow> density p | Some v \<Rightarrow> v),
      heatCapacity = (case opt_heatCapacity q of None \<Rightarrow> heatCapacity p | Some v \<Rightarrow> v),
      heatOfReaction = (case opt_heatOfReaction q of None \<Rightarrow> heatOfReaction p | Some v \<Rightarrow> v),
      heatTransferCoeff =
        (case opt_heatTransferCoeff q of None \<Rightarrow> heatTransferCoeff p | Some v \<Rightarrow> v),
      heatTransferArea =
        (case opt_heatTransferArea q of None \<Rightarrow> heatTransferArea p | Some v \<Rightarrow> v),
      jacketDensity = (case opt_jacketDensity q of None \<Rightarrow> jacketDensity p | Some v \<Rightarrow> v),
      jacketHeatCapacity =
        (case opt_jacketHeatCapacity q of None \<Rightarrow> jacketHeatCapacity p | Some v \<Rightarrow> v),
      jacketVolume = (case opt_jacketVolume q of None \<Rightarrow> jacketVolume p | Some v \<Rightarrow> v),
      jacketFlowRate = (case opt_jacketFlowRate q of None \<Rightarrow> jacketFlowRate p | Some v \<Rightarrow> v)\<rparr>"

definition updateParameters :: "PartialCSTRParameters \<Rightarrow> CSTRSimulator \<Rightarrow> CSTRSimulator" where
  "updateParameters newParams this = this\<lparr>params := spread (params this) newParams\<rparr>"

definition getState :: "CSTRSimulator \<Rightarrow> CSTRState" where
  "getState this = state this"

definition getConversion :: "CSTRSimulator \<Rightarrow> real" where
  "getConversion this =
     (if feedConcentration (params this) = 0 then 0
      else ((feedConcentration (params this) - concentration (state this)) /
            feedConcentration (params this)) * 100)"

definition getResidenceTime :: "CSTRSimulator \<Rightarrow> real" where
  "getResidenceTime this =
     (let outletFlow = getOutletFlowRate this
      in if outletFlow > 0 then volume (state this) / outletFlow else 0)"

definition getHeatRemovalRate :: "CSTRSimulator \<Rightarrow> real" where
  "getHeatRemovalRate this =
     (heatTransferCoeff (params this) * heatTransferArea (params this) *
      (temperature (state this) - jacketTemp (state this))) / 1000"

definition getReactionRate :: "CSTRSimulator \<Rightarrow> real" where
  "getReactionRate this = getReactionRateValue this"

definition getOutletFlow :: "CSTRSimulator \<Rightarrow> real" where
  "getOutletFlow this = getOutletFlowRate this"

subsection \<open>The state as a vector\<close>

text \<open>
  The integrator works on the four components \<open>(V, CA, T, TJ)\<close> of the state; the time is
  carried along. \<open>vector\<close> reads them off a state, \<open>with_vector\<close> puts a simulator's state
  at a given vector, and \<open>f_at this x\<close> is the result of the four derivative methods of the
  source when the simulator's state is at \<open>x\<close>.
\<close>

type_synonym vec4 = "real \<times> real \<times> real \<times> real"

fun vadd :: "vec4 \<Rightarrow> vec4 \<Rightarrow> vec4" where
  "vadd (a1, a2, a3, a4) (b1, b2, b3, b4) = (a1 + b1, a2 + b2, a3 + b3, a4 + b4)"

fun vscale :: "real \<Rightarrow> vec4 \<Rightarrow> vec4" where
  "vscale c (a1, a2, a3, a4) = (c * a1, c * a2, c * a3, c * a4)"

fun vdiv :: "vec4 \<Rightarrow> real \<Rightarrow> vec4" where
  "vdiv (a1, a2, a3, a4) c = (a1 / c, a2 / c, a3 / c, a4 / c)"

definition vector :: "CSTRState \<Rightarrow> vec4" where
  "vector s = (volume s, concentration s, temperature s, jacketTemp s)"

fun with_vector :: "vec4 \<Rightarrow> CSTRSimulator \<Rightarrow> CSTRSimulator" where
  "with_vector (V, CA, T, TJ) this =
     this\<lparr>state := (state this)
       \<lparr>volume := V, concentration := CA, temperature := T, jacketTemp := TJ\<rparr>\<rparr>"

definition derivatives :: "CSTRSimulator \<Rightarrow> vec4" where
  "derivatives this =
     (volumeDerivative this, concentrationDerivative this,
      temperatureDerivative this, jacketTempDerivative this)"

definition f_at :: "CSTRSimulator \<Rightarrow> vec4 \<Rightarrow> vec4" where
  "f_at this x = derivatives (with_vector x this)"

subsection \<open>The specification's formulas\<close>

text \<open>
  These two definitions follow the words of the specification, not the source: the
  classical Runge-Kutta step of section 4.1 for a vector field \<open>f\<close> and a step size \<open>h\<close>,
  and the derivative equations of the same section.
\<close>

definition rk4_spec :: "(vec4 \<Rightarrow> vec4) \<Rightarrow> real \<Rightarrow> vec4 \<Rightarrow> vec4" where
  "rk4_spec f h x0 =
     (let k1 = vscale h (f x0);
          k2 = vscale h (f (vadd x0 (vdiv k1 2)));
          k3 = vscale h (f (vadd x0 (vdiv k2 2)));
          k4 = vscale h (f (vadd x0 k3))
      in vadd x0 (vdiv (vadd (vadd (vadd k1 (vscale 2 k2)) (vscale 2 k3)) k4) 6))"

fun f_spec :: "CSTRParameters \<Rightarrow> vec4 \<Rightarrow> vec4" where
  "f_spec P (V, CA, T, TJ) =
     (let F = valveConstant P * (V - minimumVolume P);
          k = preExponentialFactor P * exp (- activationEnergy P / (gasConstant P * T));
          r = k * Math_pow CA (reactionOrder P);
          rhoCp = density P * heatCapacity P;
          rhoJCJ = jacketDensity P * jacketHeatCapacity P
      in (inletFlowRate P - F,
          (inletFlowRate P * feedConcentration P - F * CA - V * r) / V,
          (rhoCp * (inletFlowRate P * feedTemperature P - F * T) - heatOfReaction P * V * r -
             heatTransferCoeff P * heatTransferArea P * (T - TJ)) / (rhoCp * V),
          (jacketFlowRate P * rhoJCJ * (jacketInletTemp P - TJ) +
             heatTransferCoeff P * heatTransferArea P * (T - TJ)) / (rhoJCJ * jacketVolume P)))"

subsection \<open>The reference scenario\<close>

text \<open>
  The initial state and the parameters with which the application constructs its
  simulator; they are the concrete scenario of the specification's section 8.
\<close>

definition scenario_state :: CSTRState where
  "scenario_state =
     \<lparr>volume = 1.0, concentration = 0.5, temperature = 350, jacketTemp = 300, time = 0\<rparr>"

definition scenario_params :: CSTRParameters where
  "scenario_params =
     \<lparr>inletFlowRate = 1.0, feedConcentration = 0.5, feedTemperature = 350,
      jacketInletTemp = 300, valveConstant = 0.1, minimumVolume = 0.1,
      preExponentialFactor = 1, activationEnergy = 10000, gasConstant = 8.314,
      reactionOrder = 2, density = 1000, heatCapacity = 4.18, heatOfReaction = 1,
      heatTransferCoeff = 100, heatTransferArea = 1, jacketDensity = 1000,
      jacketHeatCapacity = 4.18, jacketVolume = 0.1, jacketFlowRate = 0.1\<rparr>"

definition scenario :: CSTRSimulator where
  "scenario = new_CSTRSimulator scenario_state scenario_params"

text \<open>A partial parameter record with no property at all.\<close>

definition no_params :: PartialCSTRParameters where
  "no_params =
     \<lparr>opt_inletFlowRate = None, opt_feedConcentration = None, opt_feedTemperature = None,
      opt_jacketInletTemp = None, opt_valveConstant = None, opt_minimumVolume = None,
      opt_preExponentialFactor = None, opt_activationEnergy = None, opt_gasConstant = None,
      opt_reactionOrder = None, opt_density = None, opt_heatCapacity = None,
      opt_heatOfReaction = None, opt_heatTransferCoeff = None, opt_heatTransferArea = None,
      opt_jacketDensity = None, opt_jacketHeatCapacity = None, opt_jacketVolume = None,
      opt_jacketFlowRate = None\<rparr>"

subsection \<open>Further concrete simulators\<close>

text \<open>
  Variations of the reference scenario: the reactant half consumed, a feed without
  reactant (set through \<^verbatim>\<open>updateParameters\<close>), a level below the minimum volume, the same
  with the valve constant at zero, an inert reactor (\<open>\<alpha> = 0\<close>) whose outlet flow matches
  the feed, once with the reactor at the feed concentration and once below it, and a
  reactor that shares with the scenario only its volume and the three parameters of the
  valve equation.
\<close>

definition half_converted :: CSTRSimulator where
  "half_converted =
     new_CSTRSimulator (scenario_state\<lparr>concentration := 0.25\<rparr>) scenario_params"

definition no_feed :: CSTRSimulator where
  "no_feed = updateParameters (no_params\<lparr>opt_feedConcentration := Some 0\<rparr>) scenario"

definition low_level :: CSTRSimulator where
  "low_level = new_CSTRSimulator (scenario_state\<lparr>volume := 0.05\<rparr>) scenario_params"

definition closed_valve :: CSTRSimulator where
  "closed_valve =
     new_CSTRSimulator (scenario_state\<lparr>volume := 0.05\<rparr>)
       (scenario_params\<lparr>valveConstant := 0\<rparr>)"

definition inert_params :: CSTRParameters where
  "inert_params =
     scenario_params\<lparr>preExponentialFactor := 0, valveConstant := 1, minimumVolume := 0\<rparr>"

definition steady :: CSTRSimulator where
  "steady = new_CSTRSimulator scenario_state inert_params"

definition unmixed_feed :: CSTRSimulator where
  "unmixed_feed =
     new_CSTRSimulator (scenario_state\<lparr>concentration := 0.25\<rparr>) inert_params"

definition other_reactor :: CSTRSimulator where
  "other_reactor =
     new_CSTRSimulator
       (scenario_state\<lparr>concentration := 2, temperature := 400, jacketTemp := 290,
          time := 5\<rparr>)
       (scenario_params\<lparr>feedConcentration := 3, feedTemperature := 320,
          preExponentialFactor := 0, heatOfReaction := 7, jacketFlowRate := 1\<rparr>)"

section \<open>Properties\<close>

subsection \<open>Auxiliary facts\<close>

lemmas add_defs = add_volume_def add_concentration_def add_temperature_def
  add_jacketTemp_def add_time_def

lemmas rate_defs = getOutletFlowRate_def calculateRateConstant_def getReactionRateValue_def
  Math_exp_def

lemmas derivative_defs = volumeDerivative_def concentrationDerivative_def
  temperatureDerivative_def jacketTempDerivative_def

lemmas scenario_defs = scenario_def new_CSTRSimulator_def scenario_state_def
  scenario_params_def

lemma Math_pow_examples:
  "Math_pow 0.5 2 = 0.25" "Math_pow (- 2) 3 = - 8" "Math_pow (- 2) 2 = 4"
  "Math_pow 0 0 = 1" "Math_pow 0 2 = 0" "Math_pow 4 0.5 = 2"
proof -
  have "(4::real) powr (1 / 2) = sqrt 4"
    by (simp only: powr_half_sqrt)
  then show "Math_pow 4 0.5 = 2"
    by (simp add: Math_pow_def)
qed (simp_all add: Math_pow_def power2_eq_square)

lemma step_vector:
  "vector (fst (step this)) = rk4_spec (f_at this) (dt this) (vector (state this))"
  by (simp add: step_def Let_def add_defs rk4_spec_def f_at_def derivatives_def vector_def)

lemma step_time: "time (fst (step this)) = time (state this) + dt this"
  by (simp add: step_def Let_def add_defs)

lemma step_snd: "snd (step this) = this\<lparr>state := fst (step this)\<rparr>"
  by (simp add: step_def Let_def add_defs)

lemma step_params: "params (snd (step this)) = params this"
  by (simp add: step_snd)

lemma step_dt: "dt (snd (step this)) = dt this"
  by (simp add: step_snd)

lemma step_state: "state (snd (step this)) = fst (step this)"
  by (simp add: step_snd)

lemma steps_params: "params (steps n this) = params this"
  by (induction n arbitrary: this) (simp_all add: step_params)

lemma steps_dt: "dt (steps n this) = dt this"
  by (induction n arbitrary: this) (simp_all add: step_dt)

lemma steps_time:
  "time (state (steps n this)) = ((\<lambda>t. t + dt this) ^^ n) (time (state this))"
proof (induction n arbitrary: this)
  case 0
  show ?case by simp
next
  case (Suc n)
  have "time (state (steps (Suc n) this)) =
          ((\<lambda>t. t + dt this) ^^ n) (time (state this) + dt this)"
    by (simp add: Suc.IH step_dt step_state step_time)
  also have "\<dots> = ((\<lambda>t. t + dt this) ^^ Suc n) (time (state this))"
    by (simp only: funpow_Suc_right o_apply)
  finally show ?case .
qed

text \<open>In exact arithmetic the accumulated additions are \<open>n\<close> times the step size.\<close>

lemma steps_time_closed:
  "time (state (steps n this)) = time (state this) + real n * dt this"
  by (induction n arbitrary: this)
     (simp_all add: step_dt step_state step_time algebra_simps)

lemma derivatives_spec: "derivatives this = f_spec (params this) (vector (state this))"
  by (simp add: derivatives_def vector_def derivative_defs rate_defs Let_def)

lemma f_at_spec: "f_at this x = f_spec (params this) x"
  by (cases x) (simp add: f_at_def derivatives_spec vector_def)

lemma f_at_spec_fun: "f_at this = f_spec (params this)"
  by (rule ext) (rule f_at_spec)

lemma step_volume_formula:
  "volume (fst (step this)) =
     (let h = dt this; F0 = inletFlowRate (params this); KV = valveConstant (params this);
          Vmin = minimumVolume (params this); V = volume (state this);
          k1 = h * (F0 - KV * (V - Vmin));
          k2 = h * (F0 - KV * (V + k1 / 2 - Vmin));
          k3 = h * (F0 - KV * (V + k2 / 2 - Vmin));
          k4 = h * (F0 - KV * (V + k3 - Vmin))
      in V + (k1 + 2 * k2 + 2 * k3 + k4) / 6)"
  by (simp add: step_def Let_def add_defs volumeDerivative_def getOutletFlowRate_def)

subsection \<open>The integrator is one classical Runge-Kutta step\<close>

text \<open>
  Claim C1. For every simulator, \<^verbatim>\<open>step()\<close> is one classical RK4 step on the vector
  \<open>(V, CA, T, TJ)\<close>: with \<open>f\<close> the four derivative methods evaluated at a given vector and
  \<open>h\<close> the simulator's \<open>dt\<close>, the new vector is \<open>x0 + (k1 + 2 k2 + 2 k3 + k4) / 6\<close> where
  \<open>k1 = h f(x0)\<close>, \<open>k2 = h f(x0 + k1 / 2)\<close>, \<open>k3 = h f(x0 + k2 / 2)\<close> and
  \<open>k4 = h f(x0 + k3)\<close>, every stage starting again from \<open>x0\<close>. The time advances by
  \<open>dt\<close>, and the simulator left behind differs from the one before the call in its state
  only, which is the returned one: nothing of a stage remains.
\<close>

theorem step_is_classical_rk4:
  "vector (fst (step this)) = rk4_spec (f_at this) (dt this) (vector (state this)) \<and>
   time (fst (step this)) = time (state this) + dt this \<and>
   snd (step this) = this\<lparr>state := fst (step this)\<rparr>"
  by (simp only: step_vector step_time step_snd)

subsection \<open>The derivative methods compute the specification's formulas\<close>

text \<open>
  Claim C2. For every state \<open>(V, CA, T, TJ)\<close> and parameter set, the four derivative
  methods the integrator evaluates are the specification's formulas \<open>f_spec\<close>: with
  \<open>F = KV (V - Vmin)\<close>, \<open>k = \<alpha> exp (- E / (R T))\<close> and \<open>r = k CA^n\<close> (the power of
  \<^verbatim>\<open>Math.pow\<close>), \<open>dV/dt = F0 - F\<close>, \<open>dCA/dt = (F0 CA0 - F CA - V r) / V\<close>,
  \<open>dT/dt = (\<rho>Cp (F0 T0 - F T) - \<lambda> V r - U AH (T - TJ)) / (\<rho>Cp V)\<close> and
  \<open>dTJ/dt = (FJ \<rho>JCJ (TJ0 - TJ) + U AH (T - TJ)) / (\<rho>JCJ VJ)\<close>. This holds at the
  simulator's own state and at every vector a stage of the integrator puts it at.
\<close>

theorem derivatives_match_formulas:
  "derivatives this = f_spec (params this) (vector (state this)) \<and>
   f_at this x = f_spec (params this) x \<and>
   getOutletFlowRate this =
     valveConstant (params this) * (volume (state this) - minimumVolume (params this)) \<and>
   calculateRateConstant this =
     preExponentialFactor (params this) *
     exp (- activationEnergy (params this) /
          (gasConstant (params this) * temperature (state this))) \<and>
   getReactionRateValue this =
     calculateRateConstant this *
     Math_pow (concentration (state this)) (reactionOrder (params this))"
  by (simp add: derivatives_spec f_at_spec rate_defs)

subsection \<open>Time\<close>

text \<open>
  Claim C3. The step size is the constant \<open>0.1\<close> whatever the constructor is given, and
  neither \<^verbatim>\<open>step()\<close> nor \<^verbatim>\<open>updateParameters\<close> changes it. Every \<^verbatim>\<open>step()\<close> adds \<open>dt\<close> to the
  time, so after \<open>n\<close> calls the time is the initial time with \<open>dt\<close> added \<open>n\<close> times, one
  addition after the other. \<^verbatim>\<open>updateParameters\<close>, the only other method that assigns a
  field, leaves the time alone.
\<close>

theorem time_advances_by_dt:
  "dt (new_CSTRSimulator initialState parameters) = 0.1 \<and>
   dt (snd (step this)) = dt this \<and>
   dt (updateParameters newParams this) = dt this \<and>
   time (fst (step this)) = time (state this) + dt this \<and>
   time (state (snd (step this))) = time (state this) + dt this \<and>
   time (state (steps n this)) = ((\<lambda>t. t + dt this) ^^ n) (time (state this)) \<and>
   time (state (updateParameters newParams this)) = time (state this)"
  by (simp add: new_CSTRSimulator_def step_dt step_time step_state steps_time
      updateParameters_def)

subsection \<open>Parameter updates\<close>

text \<open>
  Claim C4. \<^verbatim>\<open>updateParameters(partial)\<close> replaces the parameter fields present in the
  partial record by their new values and keeps every other parameter field; it leaves the
  state (volume, concentration, temperature, jacketTemp and time) and the step size as
  they are; and the next \<^verbatim>\<open>step()\<close> is the Runge-Kutta step whose derivatives are the
  specification's formulas at the merged parameter set.
\<close>

theorem updateParameters_frame:
  "inletFlowRate (params (updateParameters newParams this)) =
     (case opt_inletFlowRate newParams of None \<Rightarrow> inletFlowRate (params this) | Some v \<Rightarrow> v) \<and>
   feedConcentration (params (updateParameters newParams this)) =
     (case opt_feedConcentration newParams of None \<Rightarrow> feedConcentration (params this) | Some v \<Rightarrow> v) \<and>
   feedTemperature (params (updateParameters newParams this)) =
     (case opt_feedTemperature newParams of None \<Rightarrow> feedTemperature (params this) | Some v \<Rightarrow> v) \<and>
   jacketInletTemp (params (updateParameters newParams this)) =
     (case opt_jacketInletTemp newParams of None \<Rightarrow> jacketInletTemp (params this) | Some v \<Rightarrow> v) \<and>
   valveConstant (params (updateParameters newParams this)) =
     (case opt_valveConstant newParams of None \<Rightarrow> valveConstant (params this) | Some v \<Rightarrow> v) \<and>
   minimumVolume (params (updateParameters newParams this)) =
     (case opt_minimumVolume newParams of None \<Rightarrow> minimumVolume (params this) | Some v \<Rightarrow> v) \<and>
   preExponentialFactor (params (updateParameters newParams this)) =
     (case opt_preExponentialFactor newParams of None \<Rightarrow> preExponentialFactor (params this) | Some v \<Rightarrow> v) \<and>
   activationEnergy (params (updateParameters newParams this)) =
     (case opt_activationEnergy newParams of None \<Rightarrow> activationEnergy (params this) | Some v \<Rightarrow> v) \<and>
   gasConstant (params (updateParameters newParams this)) =
     (case opt_gasConstant newParams of None \<Rightarrow> gasConstant (params this) | Some v \<Rightarrow> v) \<and>
   reactionOrder (params (updateParameters newParams this)) =
     (case opt_reactionOrder newParams of None \<Rightarrow> reactionOrder (params this) | Some v \<Rightarrow> v) \<and>
   density (params (updateParameters newParams this)) =
     (case opt_density newParams of None \<Rightarrow> density (params this) | Some v \<Rightarrow> v) \<and>
   heatCapacity (params (updateParameters newParams this)) =
     (case opt_heatCapacity newParams of None \<Rightarrow> heatCapacity (params this) | Some v \<Rightarrow> v) \<and>
   heatOfReaction (params (updateParameters newParams this)) =
     (case opt_heatOfReaction newParams of None \<Rightarrow> heatOfReaction (params this) | Some v \<Rightarrow> v) \<and>
   heatTransferCoeff (params (updateParameters newParams this)) =
     (case opt_heatTransferCoeff newParams of None \<Rightarrow> heatTransferCoeff (params this) | Some v \<Rightarrow> v) \<and>
   heatTransferArea (params (updateParameters newParams this)) =
     (case opt_heatTransferArea newParams of None \<Rightarrow> heatTransferArea (params this) | Some v \<Rightarrow> v) \<and>
   jacketDensity (params (updateParameters newParams this)) =
     (case opt_jacketDensity newParams of None \<Rightarrow> jacketDensity (params this) | Some v \<Rightarrow> v) \<and>
   jacketHeatCapacity (params (updateParameters newParams this)) =
     (case opt_jacketHeatCapacity newParams of None \<Rightarrow> jacketHeatCapacity (params this) | Some v \<Rightarrow> v) \<and>
   jacketVolume (params (updateParameters newParams this)) =
     (case opt_jacketVolume newParams of None \<Rightarrow> jacketVolume (params this) | Some v \<Rightarrow> v) \<and>
   jacketFlowRate (params (updateParameters newParams this)) =
     (case opt_jacketFlowRate newParams of None \<Rightarrow> jacketFlowRate (params this) | Some v \<Rightarrow> v) \<and>
   state (updateParameters newParams this) = state this \<and>
   dt (updateParameters newParams this) = dt this \<and>
   vector (fst (step (updateParameters newParams this))) =
     rk4_spec (f_spec (spread (params this) newParams)) (dt this) (vector (state this)) \<and>
   time (fst (step (updateParameters newParams this))) = time (state this) + dt this"
  by (simp add: step_vector step_time f_at_spec_fun updateParameters_def spread_def)

subsection \<open>Conversion\<close>

text \<open>
  Claim C5. \<^verbatim>\<open>getConversion()\<close> is \<open>0\<close> when the feed concentration \<open>CA0\<close> is \<open>0\<close> and
  \<open>(CA0 - CA) / CA0 \<cdot> 100\<close> otherwise; for \<open>CA0 > 0\<close> and \<open>0 \<le> CA \<le> CA0\<close> it lies between
  \<open>0\<close> and \<open>100\<close>.
\<close>

theorem getConversion_value_and_bounds:
  "(feedConcentration (params this) = 0 \<longrightarrow> getConversion this = 0) \<and>
   (feedConcentration (params this) \<noteq> 0 \<longrightarrow>
      getConversion this =
        (feedConcentration (params this) - concentration (state this)) /
        feedConcentration (params this) * 100) \<and>
   (0 < feedConcentration (params this) \<and> 0 \<le> concentration (state this) \<and>
    concentration (state this) \<le> feedConcentration (params this) \<longrightarrow>
      0 \<le> getConversion this \<and> getConversion this \<le> 100)"
  by (simp add: getConversion_def divide_le_eq)

theorem getConversion_value_and_bounds_witness:
  "getConversion no_feed = 0 \<and> getConversion half_converted = 50 \<and>
   0 \<le> getConversion half_converted \<and> getConversion half_converted \<le> 100"
  using getConversion_value_and_bounds [of no_feed]
    getConversion_value_and_bounds [of half_converted]
  by (simp add: no_feed_def half_converted_def updateParameters_def spread_def no_params_def
      scenario_defs)

subsection \<open>Outlet flow\<close>

text \<open>
  Claim C6, as stated: the outlet flow is \<open>KV (V - Vmin)\<close>, hence strictly negative
  whenever \<open>V < Vmin\<close>. The second half fails for a valve constant that is not positive:
  with \<open>KV = 0\<close> and the level below the minimum volume the flow is \<open>0\<close>.
\<close>

theorem outlet_flow_closed_valve_not_negative:
  "volume (state closed_valve) < minimumVolume (params closed_valve) \<and>
   \<not> getOutletFlow closed_valve < 0"
  by (simp add: closed_valve_def scenario_defs getOutletFlow_def getOutletFlowRate_def)

text \<open>
  Claim C6, amended. The outlet flow computed by the model and returned by
  \<^verbatim>\<open>getOutletFlow()\<close> is \<open>KV (V - Vmin)\<close>, not clamped; for \<open>V < Vmin\<close> it is strictly
  negative exactly when \<open>KV > 0\<close>.
\<close>

theorem getOutletFlow_unclamped:
  "getOutletFlow this = getOutletFlowRate this \<and>
   getOutletFlowRate this =
     valveConstant (params this) * (volume (state this) - minimumVolume (params this)) \<and>
   (volume (state this) < minimumVolume (params this) \<longrightarrow>
      (getOutletFlow this < 0 \<longleftrightarrow> 0 < valveConstant (params this)))"
  by (auto simp add: getOutletFlow_def getOutletFlowRate_def mult_less_0_iff)

theorem getOutletFlow_unclamped_witness:
  "getOutletFlow low_level = - 0.005 \<and> getOutletFlow low_level < 0"
  using getOutletFlow_unclamped [of low_level]
  by (simp add: low_level_def scenario_defs)

subsection \<open>The inert reactor with matched flows\<close>

lemma rk4_spec_fixed:
  assumes f1: "\<And>T TJ. fst (f (V, CA, T, TJ)) = 0"
    and f2: "\<And>T TJ. fst (snd (f (V, CA, T, TJ))) = 0"
  shows "fst (rk4_spec f h (V, CA, T, TJ)) = V \<and>
         fst (snd (rk4_spec f h (V, CA, T, TJ))) = CA"
proof -
  define g where "g = (\<lambda>T TJ. fst (snd (snd (f (V, CA, T, TJ)))))"
  define j where "j = (\<lambda>T TJ. snd (snd (snd (f (V, CA, T, TJ)))))"
  have k: "f (V, CA, T, TJ) = (0, 0, g T TJ, j T TJ)" for T TJ
    by (simp add: prod_eq_iff f1 f2 g_def j_def)
  show ?thesis
    by (simp add: rk4_spec_def Let_def k)
qed

lemma f_spec_volume_steady:
  assumes "valveConstant P \<noteq> 0"
    and "V = minimumVolume P + inletFlowRate P / valveConstant P"
  shows "fst (f_spec P (V, CA, T, TJ)) = 0"
  using assms by (simp add: Let_def)

lemma f_spec_concentration_steady:
  assumes "preExponentialFactor P = 0"
    and "valveConstant P \<noteq> 0"
    and "V = minimumVolume P + inletFlowRate P / valveConstant P"
    and "inletFlowRate P = 0 \<or> CA = feedConcentration P"
  shows "fst (snd (f_spec P (V, CA, T, TJ))) = 0"
  using assms by (auto simp add: Let_def)

lemma step_steady:
  assumes "preExponentialFactor (params this) = 0"
    and "valveConstant (params this) \<noteq> 0"
    and "volume (state this) =
           minimumVolume (params this) +
           inletFlowRate (params this) / valveConstant (params this)"
    and "inletFlowRate (params this) = 0 \<or>
         concentration (state this) = feedConcentration (params this)"
  shows "volume (fst (step this)) = volume (state this) \<and>
         concentration (fst (step this)) = concentration (state this)"
proof -
  let ?P = "params this"
  let ?V = "volume (state this)"
  let ?CA = "concentration (state this)"
  have x0: "vector (state this) = (?V, ?CA, temperature (state this), jacketTemp (state this))"
    by (simp add: vector_def)
  have "fst (rk4_spec (f_spec ?P) (dt this) (vector (state this))) = ?V \<and>
        fst (snd (rk4_spec (f_spec ?P) (dt this) (vector (state this)))) = ?CA"
    unfolding x0
    by (rule rk4_spec_fixed)
       (simp_all only: f_spec_volume_steady [OF assms(2,3)]
          f_spec_concentration_steady [OF assms])
  moreover have "volume (fst (step this)) = fst (vector (fst (step this)))"
    and "concentration (fst (step this)) = fst (snd (vector (fst (step this))))"
    by (simp_all add: vector_def)
  ultimately show ?thesis
    by (simp only: step_vector f_at_spec_fun)
qed

text \<open>
  Claim C7, as stated: with \<open>\<alpha> = 0\<close> and \<open>V = Vmin + F0 / KV\<close>, repeated steps leave the
  volume and the concentration unchanged. The concentration part fails when the reactor
  is not at the feed concentration: the mass balance \<open>(F0 CA0 - F CA - V r) / V\<close> is then
  \<open>F0 (CA0 - CA) / V\<close>, and already the first step moves the concentration towards the
  feed's.
\<close>

theorem inert_concentration_moves_to_feed:
  "preExponentialFactor (params unmixed_feed) = 0 \<and>
   volume (state unmixed_feed) =
     minimumVolume (params unmixed_feed) +
     inletFlowRate (params unmixed_feed) / valveConstant (params unmixed_feed) \<and>
   getOutletFlow unmixed_feed = inletFlowRate (params unmixed_feed) \<and>
   concentration (state unmixed_feed) = 0.25 \<and>
   concentration (fst (step unmixed_feed)) = 0.273790625"
  by (simp add: unmixed_feed_def inert_params_def scenario_defs getOutletFlow_def
      step_def Let_def add_defs derivative_defs rate_defs)

text \<open>
  The volume half of the claim needs nothing but the matched flows: the volume balance
  \<open>F0 - KV (V - Vmin)\<close> reads no other component of the state and no other parameter.
\<close>

lemma step_volume_steady:
  assumes "valveConstant (params this) \<noteq> 0"
    and "volume (state this) =
           minimumVolume (params this) +
           inletFlowRate (params this) / valveConstant (params this)"
  shows "volume (fst (step this)) = volume (state this)"
  using assms by (simp add: step_volume_formula Let_def)

lemma steps_volume_steady:
  assumes "valveConstant (params this) \<noteq> 0"
    and "volume (state this) =
           minimumVolume (params this) +
           inletFlowRate (params this) / valveConstant (params this)"
  shows "volume (state (steps n this)) = volume (state this)"
  using assms
proof (induction n arbitrary: this)
  case 0
  show ?case by simp
next
  case (Suc n)
  have s: "volume (fst (step this)) = volume (state this)"
    by (rule step_volume_steady) (use Suc.prems in simp_all)
  have "volume (state (steps n (snd (step this)))) = volume (state (snd (step this)))"
    by (rule Suc.IH) (use Suc.prems s in \<open>simp_all add: step_params step_state\<close>)
  with s show ?case
    by (simp add: step_state)
qed

lemma steps_concentration_steady:
  assumes "preExponentialFactor (params this) = 0"
    and "valveConstant (params this) \<noteq> 0"
    and "volume (state this) =
           minimumVolume (params this) +
           inletFlowRate (params this) / valveConstant (params this)"
    and "inletFlowRate (params this) = 0 \<or>
         concentration (state this) = feedConcentration (params this)"
  shows "concentration (state (steps n this)) = concentration (state this)"
  using assms
proof (induction n arbitrary: this)
  case 0
  show ?case by simp
next
  case (Suc n)
  have s: "volume (fst (step this)) = volume (state this) \<and>
           concentration (fst (step this)) = concentration (state this)"
    by (rule step_steady) (use Suc.prems in simp_all)
  have "concentration (state (steps n (snd (step this)))) =
          concentration (state (snd (step this)))"
    by (rule Suc.IH) (use Suc.prems s in \<open>simp_all add: step_params step_state\<close>)
  with s show ?case
    by (simp add: step_state)
qed

text \<open>
  Claim C7, amended. For every parameter set with \<open>KV \<noteq> 0\<close> and every initial state with
  \<open>V = Vmin + F0 / KV\<close>, any number of calls of \<^verbatim>\<open>step()\<close> leaves the volume unchanged,
  whatever the concentration and the other parameters. If moreover \<open>\<alpha> = 0\<close>, the reactor
  is at the feed concentration (\<open>CA = CA0\<close>, or there is no feed at all, \<open>F0 = 0\<close>), the
  volume is not \<open>0\<close> and the power \<open>CA^n\<close> is a number, the concentration is unchanged
  too.

  The last two conditions are not needed in exact arithmetic. They are those of the
  program: it divides the mass balance by \<open>V\<close> and multiplies \<open>\<alpha> = 0\<close> with
  \<^verbatim>\<open>Math.pow(CA, n)\<close>, and a zero divisor or a power that is NaN or infinite makes the
  concentration NaN. Both are conditions on quantities that the run keeps fixed. The
  temperature, which changes from stage to stage, reaches the concentration only through
  the factor \<open>exp (- E / (R T))\<close> of the rate constant; that this factor is a number
  (a temperature that is one, \<open>R T \<noteq> 0\<close>, no overflow) is part of the exact arithmetic
  of this model and not a hypothesis.
\<close>

theorem inert_matched_flow_steady:
  assumes "valveConstant (params this) \<noteq> 0"
    and "volume (state this) =
           minimumVolume (params this) +
           inletFlowRate (params this) / valveConstant (params this)"
  shows "volume (state (steps n this)) = volume (state this) \<and>
         (preExponentialFactor (params this) = 0 \<and>
          (inletFlowRate (params this) = 0 \<or>
           concentration (state this) = feedConcentration (params this)) \<and>
          volume (state this) \<noteq> 0 \<and>
          Math_pow_finite (concentration (state this)) (reactionOrder (params this)) \<longrightarrow>
          concentration (state (steps n this)) = concentration (state this))"
  using assms
  by (simp add: steps_volume_steady steps_concentration_steady)

theorem inert_matched_flow_steady_witness:
  "volume (state (steps 1000 steady)) = 1 \<and>
   concentration (state (steps 1000 steady)) = 0.5 \<and>
   volume (state (steps 1000 unmixed_feed)) = 1"
  using inert_matched_flow_steady [of steady 1000]
    inert_matched_flow_steady [of unmixed_feed 1000]
  by (simp add: steady_def unmixed_feed_def inert_params_def scenario_defs
      Math_pow_finite_def)

subsection \<open>The reference scenario\<close>

text \<open>
  Claim C8. In the reference scenario (the initial state and the parameters of section 8,
  \<open>dt = 0.1\<close>), before the first step the outlet flow is \<open>0.1 \<cdot> (1.0 - 0.1) = 0.09\<close> and the
  volume derivative is \<open>1.0 - 0.09 = 0.91\<close>.
\<close>

theorem scenario_outlet_flow_and_volume_derivative:
  "getOutletFlow scenario = 0.1 * (1.0 - 0.1) \<and> getOutletFlow scenario = 0.09 \<and>
   volumeDerivative scenario = 1.0 - 0.09 \<and> volumeDerivative scenario = 0.91 \<and>
   dt scenario = 0.1 \<and> state scenario = scenario_state \<and> params scenario = scenario_params"
  by (simp add: getOutletFlow_def getOutletFlowRate_def volumeDerivative_def scenario_defs)

lemma scenario_first_step_volume: "volume (fst (step scenario)) = 1.090546512875"
  by (simp add: step_volume_formula scenario_defs)

subsection \<open>Residence time\<close>

text \<open>
  Claim C9. \<^verbatim>\<open>getResidenceTime()\<close> is \<open>V / F\<close> when the outlet flow \<open>F = KV (V - Vmin)\<close> is
  strictly positive, and \<open>0\<close> when \<open>F\<close> is zero or negative.
\<close>

theorem getResidenceTime_value:
  "(0 < getOutletFlow this \<longrightarrow>
      getResidenceTime this = volume (state this) / getOutletFlow this) \<and>
   (getOutletFlow this \<le> 0 \<longrightarrow> getResidenceTime this = 0) \<and>
   getOutletFlow this =
     valveConstant (params this) * (volume (state this) - minimumVolume (params this))"
  by (simp add: getResidenceTime_def getOutletFlow_def getOutletFlowRate_def)

theorem getResidenceTime_value_witness:
  "getResidenceTime scenario = 100 / 9 \<and> getResidenceTime low_level = 0 \<and>
   getResidenceTime closed_valve = 0"
  using getResidenceTime_value [of scenario] getResidenceTime_value [of low_level]
    getResidenceTime_value [of closed_valve]
  by (simp add: getOutletFlow_def getOutletFlowRate_def low_level_def closed_valve_def
      scenario_defs)

subsection \<open>The volume evolves on its own\<close>

text \<open>
  Claim C10. The volume after one \<^verbatim>\<open>step()\<close> depends only on the volume before it, on
  the parameters \<open>F0\<close>, \<open>KV\<close> and \<open>Vmin\<close>, and on \<open>dt\<close>: two simulators that agree on these
  have the same volume after a step, whatever their concentrations, temperatures, times
  and other parameters.
\<close>

theorem step_volume_independent:
  assumes "volume (state a) = volume (state b)"
    and "inletFlowRate (params a) = inletFlowRate (params b)"
    and "valveConstant (params a) = valveConstant (params b)"
    and "minimumVolume (params a) = minimumVolume (params b)"
    and "dt a = dt b"
  shows "volume (fst (step a)) = volume (fst (step b))"
  using assms by (simp add: step_volume_formula)

theorem step_volume_independent_witness:
  "volume (fst (step scenario)) = volume (fst (step other_reactor)) \<and>
   concentration (state scenario) \<noteq> concentration (state other_reactor) \<and>
   temperature (state scenario) \<noteq> temperature (state other_reactor) \<and>
   preExponentialFactor (params scenario) \<noteq> preExponentialFactor (params other_reactor)"
  using step_volume_independent [of scenario other_reactor]
  by (simp add: other_reactor_def scenario_defs)

end
